theory Spec2Isabelle
  imports Main "HOL-Library.AList"
begin

section \<open>Data model of the collaboration module\<close>

text \<open>
  The embedding follows \<^verbatim>\<open>src/Plasmo/real-time-collaboration.ts\<close>. Interfaces become
  records, string-literal unions become datatypes, optional fields become options.
  JavaScript numbers that hold offsets, lengths and timestamps are modelled as integers
  (\<^typ>\<open>int\<close>); counters that only ever count up from zero are \<^typ>\<open>nat\<close>.
  Field names carry a one-letter prefix where two interfaces share a name or where the
  name is already a HOL constant (\<open>id\<close>, \<open>type\<close>, \<open>length\<close>).
\<close>

datatype UserStatus = Online | Away | Offline

record CollaborationUser =
  uid :: string
  uname :: string
  email :: string
  avatar :: "string option"
  color :: string
  cursor :: "(int \<times> int) option"
  selection :: "(int \<times> int) option"
  lastSeen :: int
  status :: UserStatus

record Permissions =
  canEdit :: "string list"
  canView :: "string list"
  isPublic :: bool

record CollaborationRoom =
  rid :: string
  rname :: string
  description :: "string option"
  rusers :: "CollaborationUser list"
  createdAt :: int
  updatedAt :: int
  permissions :: Permissions

datatype MessageType = TextT | CursorT | SelectionT | EditT | SystemT | ReactionT

record CollaborationMessage =
  mid :: string
  mtype :: MessageType
  muserId :: string
  mroomId :: string
  mcontent :: string
  mtimestamp :: int

datatype EditType = Insert | Delete | Replace

record CollaborationEdit =
  eid :: string
  etype :: EditType
  position :: int
  content :: string
  elength :: "int option"
  userId :: string
  timestamp :: int

text \<open>The argument of \<open>sendEdit\<close>: an edit without \<open>id\<close>, \<open>userId\<close> and \<open>timestamp\<close>.\<close>

record EditDraft =
  dtype :: EditType
  dposition :: int
  dcontent :: string
  dlength :: "int option"

section \<open>Operational transform\<close>

text \<open>\<open>againstEdit.length || 0\<close>: an absent length, and the length 0, both give 0.\<close>

definition length_or_0 :: "CollaborationEdit \<Rightarrow> int" where
  "length_or_0 e = (case elength e of None \<Rightarrow> 0 | Some l \<Rightarrow> l)"

definition transformEdit :: "CollaborationEdit \<Rightarrow> CollaborationEdit \<Rightarrow> CollaborationEdit" where
  "transformEdit edit againstEdit =
     (if timestamp edit \<le> timestamp againstEdit then edit
      else
        (case etype againstEdit of
           Insert \<Rightarrow>
             (if position edit \<ge> position againstEdit
              then edit\<lparr>position := position edit + int (length (content againstEdit))\<rparr>
              else edit)
         | Delete \<Rightarrow>
             (if position edit > position againstEdit
              then edit\<lparr>position := position edit - length_or_0 againstEdit\<rparr>
              else edit)
         | Replace \<Rightarrow>
             (if position edit > position againstEdit
              then edit\<lparr>position := position edit
                         + (int (length (content againstEdit)) - length_or_0 againstEdit)\<rparr>
              else edit)))"


text \<open>Constructors for the edits of the spec's examples.\<close>

definition mk_insert :: "string \<Rightarrow> int \<Rightarrow> string \<Rightarrow> int \<Rightarrow> CollaborationEdit" where
  "mk_insert c p u t =
     \<lparr>eid = u @ ''-e'', etype = Insert, position = p, content = c, elength = None,
      userId = u, timestamp = t\<rparr>"

definition mk_delete :: "int \<Rightarrow> int \<Rightarrow> string \<Rightarrow> int \<Rightarrow> CollaborationEdit" where
  "mk_delete p l u t =
     \<lparr>eid = u @ ''-e'', etype = Delete, position = p, content = [], elength = Some l,
      userId = u, timestamp = t\<rparr>"





section \<open>The collaboration manager\<close>

datatype ReadyState = CONNECTING | OPEN | CLOSING | CLOSED

datatype WebRTCStatus = RtcConnecting | RtcConnected | RtcDisconnected | RtcFailed

text \<open>
  The module itself never throws; an exception can only come out of a subscribed callback.
\<close>

datatype exn = Thrown string

text \<open>The second argument of \<open>emit\<close>.\<close>

datatype payload =
    NoData
  | UserData CollaborationUser
  | UserIdData string
  | RoomData CollaborationRoom
  | MessageData CollaborationMessage
  | EditData CollaborationEdit
  | CursorData string "(int \<times> int) option"
  | SelectionData string "(int \<times> int) option"
  | CloseData bool
  | ErrorData string

text \<open>
  A subscribed callback: an identity (JavaScript compares functions by reference) and its
  outcome on a payload, \<open>None\<close> for a normal return and \<open>Some e\<close> for a throw. Callbacks
  are taken not to call back into the manager.
\<close>

datatype callback = Callback (cb_id: nat) (cb_run: "payload \<Rightarrow> exn option")

text \<open>The JSON envelopes, outgoing and incoming, by their \<open>type\<close> field.\<close>

datatype wire =
    Ping int
  | Pong
  | UserUpdate CollaborationUser
  | UserJoined CollaborationUser
  | UserLeft string
  | UserUpdated CollaborationUser
  | RoomCreate CollaborationRoom
  | RoomJoin string string
  | RoomLeave string string
  | RoomJoined CollaborationRoom
  | MessageMsg CollaborationMessage
  | ReactionMsg CollaborationMessage
  | EditMsg CollaborationEdit
  | CursorUpdate string "(int \<times> int) option"
  | SelectionUpdate string "(int \<times> int) option"
  | WebrtcOffer string
  | WebrtcAnswer string
  | WebrtcIceCandidate string
  | Unknown string

text \<open>
  The private fields of \<open>CollaborationManager\<close>, followed by the part of the JavaScript
  runtime the class acts on: the frames handed to the socket (\<open>sent\<close>), the callback
  invocations made so far (\<open>calls\<close>), the running \<open>setInterval\<close> timers (\<open>intervals\<close>),
  the pending \<open>setTimeout\<close> timers with the delay and the captured arguments of
  \<open>connect\<close> (\<open>timeouts\<close>), and the next fresh timer handle. \<open>websocket\<close> holds the
  ready state of the current socket, \<open>None\<close> for \<open>null\<close>. The maps are association
  lists in insertion order, as a JavaScript \<open>Map\<close> keeps them.
\<close>

record manager =
  websocket :: "ReadyState option"
  currentUser :: "CollaborationUser option"
  currentRoom :: "CollaborationRoom option"
  users :: "(string \<times> CollaborationUser) list"
  messages :: "CollaborationMessage list"
  edits :: "CollaborationEdit list"
  webrtcConnections :: "(string \<times> WebRTCStatus) list"
  eventListeners :: "(string \<times> callback list) list"
  reconnectAttempts :: nat
  maxReconnectAttempts :: nat
  heartbeatInterval :: "nat option"
  sent :: "wire list"
  calls :: "(nat \<times> payload) list"
  intervals :: "nat list"
  timeouts :: "(nat \<times> string \<times> string) list"
  nextTimer :: nat

definition initial_manager :: manager where
  "initial_manager =
     \<lparr>websocket = None, currentUser = None, currentRoom = None, users = [], messages = [],
      edits = [], webrtcConnections = [], eventListeners = [], reconnectAttempts = 0,
      maxReconnectAttempts = 5, heartbeatInterval = None, sent = [], calls = [],
      intervals = [], timeouts = [], nextTimer = 0\<rparr>"

subsection \<open>Event system\<close>


fun remove_first :: "nat \<Rightarrow> callback list \<Rightarrow> callback list" where
  "remove_first i [] = []"
| "remove_first i (c # cs) = (if cb_id c = i then cs else c # remove_first i cs)"

definition off :: "string \<Rightarrow> callback \<Rightarrow> manager \<Rightarrow> manager" where
  "off event cb s =
     (case map_of (eventListeners s) event of
        None \<Rightarrow> s
      | Some ls \<Rightarrow>
          s\<lparr>eventListeners := AList.update event (remove_first (cb_id cb) ls) (eventListeners s)\<rparr>)"

text \<open>
  \<open>listeners.forEach(callback => callback(data))\<close>: the callbacks run in array order; a
  throw leaves the loop at once and goes to the caller. The trace records every call made.
\<close>

fun forEach_call :: "callback list \<Rightarrow> payload \<Rightarrow> (nat \<times> payload) list
                       \<Rightarrow> (nat \<times> payload) list \<times> exn option" where
  "forEach_call [] d tr = (tr, None)"
| "forEach_call (cb # cbs) d tr =
     (case cb_run cb d of
        Some e \<Rightarrow> (tr @ [(cb_id cb, d)], Some e)
      | None \<Rightarrow> forEach_call cbs d (tr @ [(cb_id cb, d)]))"

definition emit :: "string \<Rightarrow> payload \<Rightarrow> manager \<Rightarrow> manager \<times> exn option" where
  "emit event d s =
     (case map_of (eventListeners s) event of
        None \<Rightarrow> (s, None)
      | Some listeners \<Rightarrow>
          (case forEach_call listeners d (calls s) of (tr, r) \<Rightarrow> (s\<lparr>calls := tr\<rparr>, r)))"

subsection \<open>Connection management\<close>

definition send :: "wire \<Rightarrow> manager \<Rightarrow> manager" where
  "send data s = (if websocket s = Some OPEN then s\<lparr>sent := sent s @ [data]\<rparr> else s)"

definition startHeartbeat :: "manager \<Rightarrow> manager" where
  "startHeartbeat s =
     s\<lparr>heartbeatInterval := Some (nextTimer s),
       intervals := intervals s @ [nextTimer s],
       nextTimer := nextTimer s + 1\<rparr>"

definition stopHeartbeat :: "manager \<Rightarrow> manager" where
  "stopHeartbeat s =
     (case heartbeatInterval s of
        None \<Rightarrow> s
      | Some h \<Rightarrow> s\<lparr>intervals := removeAll h (intervals s), heartbeatInterval := None\<rparr>)"

text \<open>One firing of the heartbeat interval at time \<open>now\<close>.\<close>

definition heartbeat_tick :: "int \<Rightarrow> manager \<Rightarrow> manager" where
  "heartbeat_tick now s = (if websocket s = Some OPEN then send (Ping now) s else s)"

definition reconnect :: "string \<Rightarrow> string \<Rightarrow> manager \<Rightarrow> manager" where
  "reconnect serverUrl authToken s =
     (let s1 = s\<lparr>reconnectAttempts := reconnectAttempts s + 1\<rparr>;
          delay = min (1000 * 2 ^ reconnectAttempts s1) 30000
      in s1\<lparr>timeouts := timeouts s1 @ [(delay, serverUrl, authToken)]\<rparr>)"

text \<open>
  \<open>connect\<close> creates the socket and installs the four handlers, which follow as functions
  of their own. \<open>accepts\<close> stands for the \<open>WebSocket\<close> constructor, which throws on a URL
  it rejects; the \<open>catch\<close> then returns \<open>false\<close>.
\<close>

definition connect :: "(string \<Rightarrow> bool) \<Rightarrow> string \<Rightarrow> string \<Rightarrow> manager \<Rightarrow> manager \<times> bool" where
  "connect accepts serverUrl authToken s =
     (if accepts (serverUrl @ ''?token='' @ authToken)
      then (s\<lparr>websocket := Some CONNECTING\<rparr>, True)
      else (s, False))"

definition onopen :: "manager \<Rightarrow> manager \<times> exn option" where
  "onopen s = emit ''connected'' NoData (startHeartbeat (s\<lparr>reconnectAttempts := 0\<rparr>))"

definition onclose :: "string \<Rightarrow> string \<Rightarrow> bool \<Rightarrow> manager \<Rightarrow> manager \<times> exn option" where
  "onclose serverUrl authToken wasClean s =
     (case emit ''disconnected'' (CloseData wasClean) (stopHeartbeat s) of
        (s2, Some e) \<Rightarrow> (s2, Some e)
      | (s2, None) \<Rightarrow>
          (if \<not> wasClean \<and> reconnectAttempts s2 < maxReconnectAttempts s2
           then (reconnect serverUrl authToken s2, None)
           else (s2, None)))"

definition onerror :: "string \<Rightarrow> manager \<Rightarrow> manager \<times> exn option" where
  "onerror err s = emit ''error'' (ErrorData err) s"

definition disconnect :: "manager \<Rightarrow> manager" where
  "disconnect s =
     (let s1 = (case websocket s of None \<Rightarrow> s | Some ws \<Rightarrow> s\<lparr>websocket := None\<rparr>);
          s2 = stopHeartbeat s1
      in s2\<lparr>webrtcConnections := []\<rparr>)"

definition destroy :: "manager \<Rightarrow> manager" where
  "destroy s =
     (disconnect s)\<lparr>eventListeners := [], users := [], messages := [], edits := []\<rparr>"

subsection \<open>Rooms and editing\<close>

definition joinRoom :: "string \<Rightarrow> manager \<Rightarrow> manager \<times> bool" where
  "joinRoom roomId s =
     (case currentUser s of
        None \<Rightarrow> (s, False)
      | Some u \<Rightarrow> (send (RoomJoin roomId (uid u)) s, True))"

definition leaveRoom :: "manager \<Rightarrow> manager" where
  "leaveRoom s =
     (case currentRoom s of
        None \<Rightarrow> s
      | Some r \<Rightarrow>
          (case currentUser s of
             None \<Rightarrow> s
           | Some u \<Rightarrow> (send (RoomLeave (rid r) (uid u)) s)\<lparr>currentRoom := None, users := []\<rparr>))"

text \<open>
  \<open>sendEdit\<close>; \<open>newId\<close> and \<open>now\<close> are the results of \<open>generateId()\<close> and \<open>Date.now()\<close>.
\<close>

definition sendEdit :: "EditDraft \<Rightarrow> string \<Rightarrow> int \<Rightarrow> manager \<Rightarrow> manager \<times> exn option" where
  "sendEdit edit newId now s =
     (case currentUser s of
        None \<Rightarrow> (s, None)
      | Some u \<Rightarrow>
          (case currentRoom s of
             None \<Rightarrow> (s, None)
           | Some r \<Rightarrow>
               (let fullEdit = \<lparr>eid = newId, etype = dtype edit, position = dposition edit,
                                content = dcontent edit, elength = dlength edit,
                                userId = uid u, timestamp = now\<rparr>
                in emit ''edit'' (EditData fullEdit)
                     (send (EditMsg fullEdit) (s\<lparr>edits := edits s @ [fullEdit]\<rparr>)))))"

subsection \<open>Inbound dispatch\<close>

text \<open>
  The three WebRTC cases start asynchronous browser negotiation and change no field before
  their first \<open>await\<close>; a type without a case (among them \<open>reaction\<close> and the outgoing
  kinds) is logged and dropped. Setting the cursor or selection assigns to the user object
  held by the presence table.
\<close>

fun handleMessage :: "wire \<Rightarrow> manager \<Rightarrow> manager \<times> exn option" where
  "handleMessage Pong s = (s, None)"
| "handleMessage (UserJoined u) s =
     emit ''user_joined'' (UserData u) (s\<lparr>users := AList.update (uid u) u (users s)\<rparr>)"
| "handleMessage (UserLeft i) s =
     emit ''user_left'' (UserIdData i) (s\<lparr>users := AList.delete i (users s)\<rparr>)"
| "handleMessage (UserUpdated u) s =
     emit ''user_updated'' (UserData u) (s\<lparr>users := AList.update (uid u) u (users s)\<rparr>)"
| "handleMessage (RoomJoined room) s =
     emit ''room_joined'' (RoomData room)
       (s\<lparr>currentRoom := Some room,
          users := foldl (\<lambda>m u. AList.update (uid u) u m) (users s) (rusers room)\<rparr>)"
| "handleMessage (MessageMsg m) s =
     emit ''message'' (MessageData m) (s\<lparr>messages := messages s @ [m]\<rparr>)"
| "handleMessage (EditMsg e) s =
     (let transformedEdit = foldl transformEdit e (edits s)
      in emit ''edit'' (EditData transformedEdit) (s\<lparr>edits := edits s @ [transformedEdit]\<rparr>))"
| "handleMessage (CursorUpdate i c) s =
     (case map_of (users s) i of
        None \<Rightarrow> (s, None)
      | Some u \<Rightarrow>
          emit ''cursor_update'' (CursorData i c)
            (s\<lparr>users := AList.update i (u\<lparr>cursor := c\<rparr>) (users s)\<rparr>))"
| "handleMessage (SelectionUpdate i sel) s =
     (case map_of (users s) i of
        None \<Rightarrow> (s, None)
      | Some u \<Rightarrow>
          emit ''selection_update'' (SelectionData i sel)
            (s\<lparr>users := AList.update i (u\<lparr>selection := sel\<rparr>) (users s)\<rparr>))"
| "handleMessage (WebrtcOffer p) s = (s, None)"
| "handleMessage (WebrtcAnswer p) s = (s, None)"
| "handleMessage (WebrtcIceCandidate p) s = (s, None)"
| "handleMessage other s = (s, None)"

definition setCurrentUser :: "CollaborationUser \<Rightarrow> int \<Rightarrow> manager \<Rightarrow> manager" where
  "setCurrentUser user now s =
     (let u = user\<lparr>lastSeen := now, status := Online\<rparr>
      in send (UserUpdate u) (s\<lparr>currentUser := Some u\<rparr>))"

subsection \<open>Scenarios\<close>

text \<open>The callbacks subscribed to an event, in subscription order.\<close>

definition listeners_of :: "string \<Rightarrow> manager \<Rightarrow> callback list" where
  "listeners_of event s = (case map_of (eventListeners s) event of None \<Rightarrow> [] | Some ls \<Rightarrow> ls)"

text \<open>
  The first pending \<open>setTimeout\<close> fires: it leaves the queue and its body calls
  \<open>connect\<close> with the captured arguments.
\<close>

definition fire_timeout :: "(string \<Rightarrow> bool) \<Rightarrow> manager \<Rightarrow> manager \<times> bool" where
  "fire_timeout accepts s =
     (case timeouts s of
        [] \<Rightarrow> (s, False)
      | (d, u, t) # rest \<Rightarrow> connect accepts u t (s\<lparr>timeouts := rest\<rparr>))"


text \<open>
  The rule of the spec for an incoming edit, in the spec's words: transform it against the
  log entries its author had not observed, and against no others. \<open>observed\<close> lists the
  ids of the edits the author had seen when creating the edit.
\<close>

definition spec_transformIncoming ::
    "string list \<Rightarrow> CollaborationEdit list \<Rightarrow> CollaborationEdit \<Rightarrow> CollaborationEdit" where
  "spec_transformIncoming observed log e =
     foldl transformEdit e (filter (\<lambda>x. eid x \<notin> set observed) log)"

subsection \<open>Example values\<close>

definition ex_user :: "string \<Rightarrow> CollaborationUser" where
  "ex_user i =
     \<lparr>uid = i, uname = i, email = i @ ''@example.org'', avatar = None, color = ''#336699'',
      cursor = None, selection = None, lastSeen = 0, status = Online\<rparr>"

definition ex_room :: "string \<Rightarrow> CollaborationUser list \<Rightarrow> CollaborationRoom" where
  "ex_room r us =
     \<lparr>rid = r, rname = r, description = None, rusers = us, createdAt = 0, updatedAt = 0,
      permissions = \<lparr>canEdit = [], canView = [], isPublic = True\<rparr>\<rparr>"

definition any_url :: "string \<Rightarrow> bool" where
  "any_url u = True"

text \<open>A manager whose socket has opened and whose user is set; the presence table is empty.\<close>

definition ex_connected :: manager where
  "ex_connected =
     setCurrentUser (ex_user ''u1'') 0
       ((fst (onopen (fst (connect any_url ''wss://host'' ''tok'' initial_manager))))
          \<lparr>websocket := Some OPEN\<rparr>)"

text \<open>The same manager in room \<open>r1\<close>, after a further user \<open>u9\<close> has joined.\<close>

definition ex_session :: manager where
  "ex_session =
     fst (handleMessage (UserJoined (ex_user ''u9''))
       (fst (handleMessage (RoomJoined (ex_room ''r1'' [ex_user ''u1''])) ex_connected)))"

text \<open>The session after one edit, an insert of \<open>X\<close> at offset 0 by \<open>u2\<close>, has arrived.\<close>

definition ex_logged :: manager where
  "ex_logged = fst (handleMessage (EditMsg (mk_insert ''X'' 0 ''u2'' 1)) ex_session)"

text \<open>The same manager after the connection dropped uncleanly: a reconnect is pending.\<close>

definition ex_dropped :: manager where
  "ex_dropped = fst (onclose ''wss://host'' ''tok'' False (ex_session\<lparr>websocket := Some CLOSED\<rparr>))"





section \<open>Properties of the transform\<close>









lemma timestamp_transformEdit: "timestamp (transformEdit e x) = timestamp e"
  by (simp add: transformEdit_def split: EditType.splits)





text \<open>
  C3 (as amended). Transforming an edit \<open>e\<close> against a delete \<open>x\<close> with a strictly earlier
  timestamp: when the position of \<open>e\<close> is greater than that of \<open>x\<close>, the position is
  lowered by the length of \<open>x\<close> (0 when the length is absent) and nothing else changes;
  there is no clamping. When the position of \<open>e\<close> is at most that of \<open>x\<close>, the edit is
  returned as it is.
\<close>

theorem transformEdit_against_delete:
  assumes "etype x = Delete" and "timestamp x < timestamp e"
  shows "transformEdit e x =
           (if position e > position x
            then e\<lparr>position := position e - length_or_0 x\<rparr> else e)"
  using assms by (simp add: transformEdit_def)

text \<open>
  An insert at offset 4 moves to offset 3 past a one-character delete at offset 2; an
  insert at offset 2 stays.
\<close>

theorem transformEdit_against_delete_witness:
  "etype (mk_delete 2 1 ''u2'' 1) = Delete
   \<and> timestamp (mk_delete 2 1 ''u2'' 1) < timestamp (mk_insert ''Y'' 4 ''u1'' 2)
   \<and> transformEdit (mk_insert ''Y'' 4 ''u1'' 2) (mk_delete 2 1 ''u2'' 1)
       = mk_insert ''Y'' 3 ''u1'' 2
   \<and> transformEdit (mk_insert ''Y'' 2 ''u1'' 2) (mk_delete 2 1 ''u2'' 1)
       = mk_insert ''Y'' 2 ''u1'' 2"
  using transformEdit_against_delete[of "mk_delete 2 1 ''u2'' 1" "mk_insert ''Y'' 4 ''u1'' 2"]
        transformEdit_against_delete[of "mk_delete 2 1 ''u2'' 1" "mk_insert ''Y'' 2 ''u1'' 2"]
  by (simp add: mk_insert_def mk_delete_def length_or_0_def)

text \<open>
  C3 as stated fails: an edit at offset 3 transformed against an earlier delete of five
  characters at offset 2 ends at offset -2, below the offset of the delete.
\<close>

theorem transformEdit_delete_not_clamped:
  "position (transformEdit (mk_insert ''Y'' 3 ''u1'' 2) (mk_delete 2 5 ''u2'' 1)) = - 2
   \<and> \<not> position (mk_delete 2 5 ''u2'' 1)
        \<le> position (transformEdit (mk_insert ''Y'' 3 ''u1'' 2) (mk_delete 2 5 ''u2'' 1))"
  by (simp add: transformEdit_def mk_insert_def mk_delete_def length_or_0_def)

text \<open>
  C9. An edit whose timestamp is at most that of the edit it is transformed against is
  returned unchanged; so two edits with equal timestamps are never shifted against each
  other, whatever their positions and kinds.
\<close>

theorem transformEdit_earlier_unchanged:
  "(timestamp e \<le> timestamp x \<longrightarrow> transformEdit e x = e)
   \<and> (timestamp e = timestamp x \<longrightarrow> transformEdit e x = e \<and> transformEdit x e = x)"
  by (simp add: transformEdit_def)

text \<open>
  An insert and a delete, both stamped 7, at offsets 9 and 2: neither moves.
\<close>

theorem transformEdit_earlier_unchanged_witness:
  "timestamp (mk_insert ''Y'' 9 ''u1'' 7) \<le> timestamp (mk_delete 2 5 ''u2'' 7)
   \<and> timestamp (mk_insert ''Y'' 9 ''u1'' 7) = timestamp (mk_delete 2 5 ''u2'' 7)
   \<and> transformEdit (mk_insert ''Y'' 9 ''u1'' 7) (mk_delete 2 5 ''u2'' 7) = mk_insert ''Y'' 9 ''u1'' 7
   \<and> transformEdit (mk_delete 2 5 ''u2'' 7) (mk_insert ''Y'' 9 ''u1'' 7) = mk_delete 2 5 ''u2'' 7"
  using transformEdit_earlier_unchanged[of "mk_insert ''Y'' 9 ''u1'' 7" "mk_delete 2 5 ''u2'' 7"]
  by (simp add: mk_insert_def mk_delete_def)

section \<open>Properties of the event system and the dispatch\<close>


lemma emit_listeners_of:
  "emit ev d s =
     (s\<lparr>calls := fst (forEach_call (listeners_of ev s) d (calls s))\<rparr>,
      snd (forEach_call (listeners_of ev s) d (calls s)))"
  by (simp add: emit_def listeners_of_def split: option.splits prod.splits)

lemma forEach_call_outcome:
  "snd (forEach_call ls d tr) = None \<or> (\<exists>cb \<in> set ls. snd (forEach_call ls d tr) = cb_run cb d)"
  by (induction ls arbitrary: tr) (auto split: option.splits)









text \<open>
  C10. A \<open>cursor_update\<close> or \<open>selection_update\<close> for a user id that is not in the presence
  table changes nothing: the whole state, with the presence table and the record of
  callback invocations, is as before, and the handler returns normally.
\<close>

theorem unknown_user_update_is_noop:
  assumes "map_of (users s) i = None"
  shows "handleMessage (CursorUpdate i c) s = (s, None)
         \<and> handleMessage (SelectionUpdate i sel) s = (s, None)"
  using assms by simp

lemma foldl_transformEdit_timestamp:
  "timestamp (foldl transformEdit e xs) = timestamp e"
  by (induction xs arbitrary: e) (simp_all add: transformEdit_def split: EditType.splits)

lemma foldl_transformEdit_earlier:
  "foldl transformEdit e xs = foldl transformEdit e (filter (\<lambda>x. timestamp x < timestamp e) xs)"
proof (induction xs arbitrary: e)
  case Nil
  show ?case by simp
next
  case (Cons x xs)
  have ts: "timestamp (transformEdit e x) = timestamp e"
    by (simp add: transformEdit_def split: EditType.splits)
  show ?case
  proof (cases "timestamp x < timestamp e")
    case True
    with Cons.IH[of "transformEdit e x"] ts show ?thesis by simp
  next
    case False
    then have "transformEdit e x = e" by (simp add: transformEdit_def)
    with False Cons.IH[of e] show ?thesis by simp
  qed
qed

lemma emit_edits: "edits (fst (emit ev d s)) = edits s"
  by (simp add: emit_listeners_of)

lemma emit_users: "users (fst (emit ev d s)) = users s"
  by (simp add: emit_listeners_of)

lemma emit_currentRoom: "currentRoom (fst (emit ev d s)) = currentRoom s"
  by (simp add: emit_listeners_of)

text \<open>
  C2 (as amended). An incoming \<open>edit\<close> message is transformed against every entry of the
  log, in log order, and the result is appended. Because of the timestamp guard of
  \<open>transformEdit\<close> this is the same as transforming it against exactly the entries with a
  strictly earlier timestamp; what the author of the edit had observed plays no part.
\<close>

theorem handleMessage_edit_transforms_against_all_earlier:
  "edits (fst (handleMessage (EditMsg e) s))
     = edits s @ [foldl transformEdit e (filter (\<lambda>x. timestamp x < timestamp e) (edits s))]"
  using foldl_transformEdit_earlier[of e "edits s"] by (simp add: emit_edits Let_def)

lemmas ex_defs = ex_connected_def ex_session_def ex_logged_def ex_dropped_def
  setCurrentUser_def onopen_def onclose_def connect_def any_url_def initial_manager_def
  emit_def startHeartbeat_def stopHeartbeat_def reconnect_def send_def Let_def

lemma ex_connected_fields:
  "currentUser ex_connected = Some (ex_user ''u1'')"
  "currentRoom ex_connected = None"
  "users ex_connected = []"
  "edits ex_connected = []"
  "eventListeners ex_connected = []"
  "websocket ex_connected = Some OPEN"
  "heartbeatInterval ex_connected = Some 0"
  "intervals ex_connected = [0]"
  "timeouts ex_connected = []"
  "reconnectAttempts ex_connected = 0"
  "maxReconnectAttempts ex_connected = 5"
  by (simp_all add: ex_defs ex_user_def)

lemma ex_session_fields:
  "currentUser ex_session = Some (ex_user ''u1'')"
  "currentRoom ex_session = Some (ex_room ''r1'' [ex_user ''u1''])"
  "users ex_session = [(''u1'', ex_user ''u1''), (''u9'', ex_user ''u9'')]"
  "edits ex_session = []"
  "eventListeners ex_session = []"
  "websocket ex_session = Some OPEN"
  "heartbeatInterval ex_session = Some 0"
  "intervals ex_session = [0]"
  "timeouts ex_session = []"
  "reconnectAttempts ex_session = 0"
  "maxReconnectAttempts ex_session = 5"
  by (simp_all add: ex_defs ex_user_def ex_room_def)

lemma ex_logged_fields:
  "edits ex_logged = [mk_insert ''X'' 0 ''u2'' 1]"
  "users ex_logged = users ex_session"
  "eventListeners ex_logged = []"
  by (simp_all add: ex_logged_def emit_def ex_session_fields)

lemma ex_dropped_fields:
  "heartbeatInterval ex_dropped = None"
  "intervals ex_dropped = []"
  "timeouts ex_dropped = [(2000, ''wss://host'', ''tok'')]"
  "reconnectAttempts ex_dropped = 1"
  by (simp_all add: ex_dropped_def onclose_def emit_def stopHeartbeat_def reconnect_def
        ex_session_fields Let_def)

text \<open>
  The session knows \<open>u1\<close> and \<open>u9\<close>; updates for \<open>u7\<close> leave it as it is.
\<close>

theorem unknown_user_update_is_noop_witness:
  "map_of (users ex_session) ''u7'' = None
   \<and> handleMessage (CursorUpdate ''u7'' (Some (3, 4))) ex_session = (ex_session, None)
   \<and> handleMessage (SelectionUpdate ''u7'' (Some (0, 5))) ex_session = (ex_session, None)"
proof -
  have absent: "map_of (users ex_session) ''u7'' = None"
    by (simp add: ex_session_fields)
  from unknown_user_update_is_noop[OF absent] absent show ?thesis by simp
qed

text \<open>
  Against a log holding an insert at offset 0 stamped 1, an insert at offset 1 stamped 2
  is moved to offset 2, and one stamped 1 is left at offset 1.
\<close>

theorem handleMessage_edit_transforms_against_all_earlier_witness:
  "edits (fst (handleMessage (EditMsg (mk_insert ''Y'' 1 ''u3'' 2)) ex_logged))
     = [mk_insert ''X'' 0 ''u2'' 1, mk_insert ''Y'' 2 ''u3'' 2]
   \<and> edits (fst (handleMessage (EditMsg (mk_insert ''Y'' 1 ''u3'' 1)) ex_logged))
     = [mk_insert ''X'' 0 ''u2'' 1, mk_insert ''Y'' 1 ''u3'' 1]"
  using handleMessage_edit_transforms_against_all_earlier[of "mk_insert ''Y'' 1 ''u3'' 2" ex_logged]
        handleMessage_edit_transforms_against_all_earlier[of "mk_insert ''Y'' 1 ''u3'' 1" ex_logged]
  by (simp add: ex_logged_fields transformEdit_def mk_insert_def)

text \<open>
  C2 as stated fails: the author of the incoming insert had already observed the logged
  edit \<open>u2-e\<close>, so the rule of the spec leaves the insert at offset 1, but \<open>handleMessage\<close>
  transforms it again and logs it at offset 2.
\<close>

theorem handleMessage_edit_ignores_what_author_observed:
  "edits (fst (handleMessage (EditMsg (mk_insert ''Y'' 1 ''u3'' 2)) ex_logged))
     = [mk_insert ''X'' 0 ''u2'' 1, mk_insert ''Y'' 2 ''u3'' 2]
   \<and> spec_transformIncoming [''u2-e''] (edits ex_logged) (mk_insert ''Y'' 1 ''u3'' 2)
     = mk_insert ''Y'' 1 ''u3'' 2"
  by (simp add: ex_logged_fields emit_def spec_transformIncoming_def transformEdit_def
        mk_insert_def)

text \<open>
  C4 (as amended). \<open>sendEdit\<close> validates nothing. Without a current user or a current room
  it returns at once and the state is unchanged. With both, the edit, whatever its position
  and length, is appended to the log, which grows by exactly that one entry; the only
  exception that can come out is one thrown by a subscriber of \<open>edit\<close>.
\<close>

theorem sendEdit_appends_without_validation:
  "(currentUser s = None \<or> currentRoom s = None \<longrightarrow> sendEdit d i now s = (s, None))
   \<and> (\<forall>u r. currentUser s = Some u \<and> currentRoom s = Some r \<longrightarrow>
         edits (fst (sendEdit d i now s))
           = edits s @ [\<lparr>eid = i, etype = dtype d, position = dposition d, content = dcontent d,
                         elength = dlength d, userId = uid u, timestamp = now\<rparr>]
         \<and> (snd (sendEdit d i now s) = None
            \<or> (\<exists>cb \<in> set (listeners_of ''edit'' s). \<exists>p. snd (sendEdit d i now s) = cb_run cb p)))"
proof -
  have none: "sendEdit d i now s = (s, None)" if "currentUser s = None \<or> currentRoom s = None"
    using that by (auto simp add: sendEdit_def split: option.splits)
  have some: "edits (fst (sendEdit d i now s))
                = edits s @ [\<lparr>eid = i, etype = dtype d, position = dposition d,
                              content = dcontent d, elength = dlength d, userId = uid u,
                              timestamp = now\<rparr>]
              \<and> (snd (sendEdit d i now s) = None
                 \<or> (\<exists>cb \<in> set (listeners_of ''edit'' s). \<exists>p. snd (sendEdit d i now s) = cb_run cb p))"
    if ur: "currentUser s = Some u \<and> currentRoom s = Some r" for u r
  proof -
    let ?full = "\<lparr>eid = i, etype = dtype d, position = dposition d, content = dcontent d,
                  elength = dlength d, userId = uid u, timestamp = now\<rparr>"
    let ?s' = "send (EditMsg ?full) (s\<lparr>edits := edits s @ [?full]\<rparr>)"
    have eq: "sendEdit d i now s = emit ''edit'' (EditData ?full) ?s'"
      using ur by (simp add: sendEdit_def Let_def)
    have log: "edits ?s' = edits s @ [?full]"
      by (simp add: send_def)
    have ls: "listeners_of ''edit'' ?s' = listeners_of ''edit'' s"
      by (simp add: listeners_of_def send_def)
    have "snd (emit ''edit'' (EditData ?full) ?s') = None
          \<or> (\<exists>cb \<in> set (listeners_of ''edit'' ?s').
                snd (emit ''edit'' (EditData ?full) ?s') = cb_run cb (EditData ?full))"
      using forEach_call_outcome[of "listeners_of ''edit'' ?s'" "EditData ?full" "calls ?s'"]
      by (simp add: emit_listeners_of)
    then have "snd (sendEdit d i now s) = None
          \<or> (\<exists>cb \<in> set (listeners_of ''edit'' s). \<exists>p. snd (sendEdit d i now s) = cb_run cb p)"
      unfolding eq ls by blast
    moreover have "edits (fst (sendEdit d i now s)) = edits s @ [?full]"
      unfolding eq by (simp only: emit_edits log)
    ultimately show ?thesis by simp
  qed
  from none some show ?thesis by blast
qed

text \<open>
  In the example session an insert is appended; without a room nothing happens.
\<close>

theorem sendEdit_appends_without_validation_witness:
  "currentUser ex_session = Some (ex_user ''u1'')
   \<and> currentRoom ex_session = Some (ex_room ''r1'' [ex_user ''u1''])
   \<and> edits (fst (sendEdit \<lparr>dtype = Insert, dposition = 0, dcontent = ''hi'', dlength = None\<rparr>
                     ''e1'' 5 ex_session))
       = [\<lparr>eid = ''e1'', etype = Insert, position = 0, content = ''hi'', elength = None,
           userId = ''u1'', timestamp = 5\<rparr>]
   \<and> currentRoom ex_connected = None
   \<and> sendEdit \<lparr>dtype = Insert, dposition = 0, dcontent = ''hi'', dlength = None\<rparr> ''e1'' 5 ex_connected
       = (ex_connected, None)"
  using sendEdit_appends_without_validation[of ex_session
          "\<lparr>dtype = Insert, dposition = 0, dcontent = ''hi'', dlength = None\<rparr>" "''e1''" 5]
        sendEdit_appends_without_validation[of ex_connected
          "\<lparr>dtype = Insert, dposition = 0, dcontent = ''hi'', dlength = None\<rparr>" "''e1''" 5]
  by (simp add: ex_session_fields ex_connected_fields ex_user_def)

text \<open>
  C4 as stated fails: an insert at position -1, and a delete of 7 characters from an empty
  log, are both appended (the log grows by one) and no error is raised.
\<close>

theorem sendEdit_accepts_malformed_edits:
  "length (edits (fst (sendEdit \<lparr>dtype = Insert, dposition = - 1, dcontent = ''x'', dlength = None\<rparr>
                         ''e1'' 5 ex_session))) = length (edits ex_session) + 1
   \<and> snd (sendEdit \<lparr>dtype = Insert, dposition = - 1, dcontent = ''x'', dlength = None\<rparr>
             ''e1'' 5 ex_session) = None
   \<and> length (edits (fst (sendEdit \<lparr>dtype = Delete, dposition = 0, dcontent = [], dlength = Some 7\<rparr>
                         ''e2'' 6 ex_session))) = length (edits ex_session) + 1
   \<and> snd (sendEdit \<lparr>dtype = Delete, dposition = 0, dcontent = [], dlength = Some 7\<rparr>
             ''e2'' 6 ex_session) = None"
  by (simp add: sendEdit_def ex_session_fields emit_def send_def Let_def)

section \<open>Properties of rooms and timers\<close>

lemma update_fresh: "k \<notin> fst ` set al \<Longrightarrow> AList.update k v al = al @ [(k, v)]"
  by (induction al) auto

lemma foldl_update_fresh:
  "distinct (map fst acc @ map uid us) \<Longrightarrow>
   foldl (\<lambda>m u. AList.update (uid u) u m) acc us = acc @ map (\<lambda>u. (uid u, u)) us"
proof (induction us arbitrary: acc)
  case Nil
  show ?case by simp
next
  case (Cons u us)
  from Cons.prems have fresh: "uid u \<notin> fst ` set acc" by auto
  from Cons.prems have "distinct (map fst (acc @ [(uid u, u)]) @ map uid us)" by auto
  from Cons.IH[OF this] show ?case by (simp add: update_fresh[OF fresh])
qed

lemma foldl_update_map_of:
  "map_of (foldl (\<lambda>m u. AList.update (uid u) u m) acc us)
     = map_of acc ++ map_of (rev (map (\<lambda>u. (uid u, u)) us))"
  by (induction us arbitrary: acc) (simp_all add: update_conv' map_add_upd_left)

lemma foldl_update_keys:
  "fst ` set (foldl (\<lambda>m u. AList.update (uid u) u m) acc us) = fst ` set acc \<union> uid ` set us"
proof -
  have "dom (map_of (foldl (\<lambda>m u. AList.update (uid u) u m) acc us))
          = dom (map_of acc) \<union> dom (map_of (rev (map (\<lambda>u. (uid u, u)) us)))"
    by (simp add: foldl_update_map_of Un_commute)
  then show ?thesis by (simp add: dom_map_of_conv_image_fst image_image)
qed

lemma joinRoom_users: "users (fst (joinRoom r s)) = users s"
  by (simp add: joinRoom_def send_def split: option.splits)

text \<open>
  C7 (as amended). After \<open>joinRoom\<close> and the receipt of \<open>room_joined\<close>, the current room is
  the room of the message, and the presence table is the earlier table overwritten with the
  members of the room, a later member winning over an earlier one with the same id: its
  keys are the earlier keys together with the member ids. When the earlier table is empty
  and the member ids are distinct, the table holds exactly the members, in order.
\<close>

theorem room_joined_merges_into_presence:
  "currentRoom (fst (handleMessage (RoomJoined room) (fst (joinRoom r s)))) = Some room
   \<and> map_of (users (fst (handleMessage (RoomJoined room) (fst (joinRoom r s)))))
       = map_of (users s) ++ map_of (rev (map (\<lambda>u. (uid u, u)) (rusers room)))
   \<and> fst ` set (users (fst (handleMessage (RoomJoined room) (fst (joinRoom r s)))))
       = fst ` set (users s) \<union> uid ` set (rusers room)
   \<and> (users s = [] \<and> distinct (map uid (rusers room)) \<longrightarrow>
        users (fst (handleMessage (RoomJoined room) (fst (joinRoom r s))))
          = map (\<lambda>u. (uid u, u)) (rusers room))"
  using foldl_update_fresh[of "[]" "rusers room"]
  by (simp add: emit_users emit_currentRoom joinRoom_users foldl_update_map_of foldl_update_keys)

text \<open>
  From an empty presence table, a \<open>room_joined\<close> with the three members \<open>u1\<close>, \<open>u2\<close>,
  \<open>u3\<close> gives a table of exactly these three.
\<close>

theorem room_joined_merges_into_presence_witness:
  "users ex_connected = []
   \<and> distinct (map uid (rusers (ex_room ''r1'' [ex_user ''u1'', ex_user ''u2'', ex_user ''u3''])))
   \<and> users (fst (handleMessage (RoomJoined (ex_room ''r1'' [ex_user ''u1'', ex_user ''u2'', ex_user ''u3'']))
               (fst (joinRoom ''r1'' ex_connected))))
       = [(''u1'', ex_user ''u1''), (''u2'', ex_user ''u2''), (''u3'', ex_user ''u3'')]
   \<and> currentRoom (fst (handleMessage (RoomJoined (ex_room ''r1'' [ex_user ''u1'', ex_user ''u2'', ex_user ''u3'']))
               (fst (joinRoom ''r1'' ex_connected))))
       = Some (ex_room ''r1'' [ex_user ''u1'', ex_user ''u2'', ex_user ''u3''])"
  using room_joined_merges_into_presence[of
          "ex_room ''r1'' [ex_user ''u1'', ex_user ''u2'', ex_user ''u3'']" "''r1''" ex_connected]
  by (simp add: ex_connected_fields ex_room_def ex_user_def)

text \<open>
  C7 as stated fails: the session already knows \<open>u9\<close>; after \<open>joinRoom\<close> and a
  \<open>room_joined\<close> with three members the table holds four users.
\<close>

theorem room_joined_keeps_earlier_presence:
  "map fst (users (fst (handleMessage
       (RoomJoined (ex_room ''r1'' [ex_user ''u1'', ex_user ''u2'', ex_user ''u3'']))
       (fst (joinRoom ''r1'' ex_session)))))
     = [''u1'', ''u9'', ''u2'', ''u3'']"
  by (simp add: emit_users joinRoom_users ex_session_fields ex_room_def ex_user_def)


lemma disconnect_fields:
  "heartbeatInterval (disconnect s) = None"
  "intervals (disconnect s)
     = (case heartbeatInterval s of None \<Rightarrow> intervals s | Some h \<Rightarrow> removeAll h (intervals s))"
  "timeouts (disconnect s) = timeouts s"
  by (simp_all add: disconnect_def stopHeartbeat_def Let_def split: option.splits)

text \<open>
  C8 (as amended). \<open>disconnect\<close> and \<open>destroy\<close> stop the heartbeat timer whose handle the
  manager holds: the handle is cleared and that timer is no longer running. Neither
  touches the pending reconnect timers, which stay scheduled.
\<close>

theorem disconnect_stops_heartbeat_keeps_timeouts:
  "heartbeatInterval (disconnect s) = None
   \<and> (\<forall>h. heartbeatInterval s = Some h \<longrightarrow> h \<notin> set (intervals (disconnect s)))
   \<and> timeouts (disconnect s) = timeouts s
   \<and> heartbeatInterval (destroy s) = None
   \<and> (\<forall>h. heartbeatInterval s = Some h \<longrightarrow> h \<notin> set (intervals (destroy s)))
   \<and> timeouts (destroy s) = timeouts s"
  by (simp add: destroy_def disconnect_fields)

text \<open>
  In the example session the heartbeat timer 0 is running; after \<open>disconnect\<close> or
  \<open>destroy\<close> it is not.
\<close>

theorem disconnect_stops_heartbeat_keeps_timeouts_witness:
  "heartbeatInterval ex_session = Some 0
   \<and> intervals ex_session = [0]
   \<and> 0 \<notin> set (intervals (disconnect ex_session))
   \<and> 0 \<notin> set (intervals (destroy ex_session))
   \<and> heartbeatInterval (disconnect ex_session) = None
   \<and> heartbeatInterval (destroy ex_session) = None"
  using disconnect_stops_heartbeat_keeps_timeouts[of ex_session]
  by (simp add: ex_session_fields)

text \<open>
  C8 as stated fails: after an unclean close a reconnect is pending with a delay of 2000;
  it is still pending after \<open>disconnect\<close> and after \<open>destroy\<close>, and when it fires it opens a
  new socket.
\<close>

theorem reconnect_timer_survives_destroy:
  "timeouts (disconnect ex_dropped) = [(2000, ''wss://host'', ''tok'')]
   \<and> timeouts (destroy ex_dropped) = [(2000, ''wss://host'', ''tok'')]
   \<and> websocket (destroy ex_dropped) = None
   \<and> websocket (fst (fire_timeout any_url (destroy ex_dropped))) = Some CONNECTING"
  by (simp add: destroy_def disconnect_fields ex_dropped_fields fire_timeout_def connect_def
        any_url_def disconnect_def stopHeartbeat_def Let_def split: option.splits)

section \<open>Reconnect schedule\<close>
















end
